theory Spec2Isabelle
  imports Main "HOL-Library.Sublist" "HOL-Library.AList" "HOL-Library.Multiset"
begin

section \<open>Strings\<close>

text \<open>
  A Go string is a sequence of bytes; it is modelled as a \<open>string\<close> (a list of
  \<open>char\<close>, one per byte). \<open>strings.HasPrefix s p\<close> is \<open>prefix p s\<close>.

  \<open>strings.ReplaceAll s old new\<close> replaces the non-overlapping occurrences of
  \<open>old\<close> in \<open>s\<close>, found from left to right. The webhook calls it with a non-empty
  \<open>old\<close> only, and the model has equations for a non-empty \<open>old\<close> only.
\<close>

fun ReplaceAll :: "string \<Rightarrow> string \<Rightarrow> string \<Rightarrow> string" where
  "ReplaceAll [] (a # old) new = []"
| "ReplaceAll (c # s) (a # old) new =
     (if prefix (a # old) (c # s)
      then new @ ReplaceAll (drop (length old) s) (a # old) new
      else c # ReplaceAll s (a # old) new)"

text \<open>
  \<open>escapeJSONPointer\<close> (webhook.go, lines 186-190): first every \<open>~\<close> becomes
  \<open>~0\<close>, then every \<open>/\<close> becomes \<open>~1\<close>.
\<close>

definition escapeJSONPointer :: "string \<Rightarrow> string" where
  "escapeJSONPointer s = ReplaceAll (ReplaceAll s ''~'' ''~0'') ''/'' ''~1''"

text \<open>What \<open>escapeJSONPointer\<close> makes of one byte (used to state its lemmas).\<close>

definition escape_char :: "char \<Rightarrow> string" where
  "escape_char c = (if c = CHR ''~'' then ''~0'' else if c = CHR ''/'' then ''~1'' else [c])"

section \<open>Data model\<close>

text \<open>
  A Go \<open>map[string]string\<close> is modelled as the list of its entries, with distinct
  keys, in the order in which a \<open>range\<close> over the map visits them in the run at hand
  (Go leaves that order unspecified, and it may differ from one run to the next).
  The lookup \<open>m[key]\<close> is \<open>map_of m key\<close>. A nil map is \<open>None\<close>.
\<close>

type_synonym gomap = "(string \<times> string) list"

definition wf_gomap :: "gomap \<Rightarrow> bool" where
  "wf_gomap m = distinct (map fst m)"

text \<open>The mapping a possibly nil map stands for: a nil map has no entry.\<close>

definition entries :: "gomap option \<Rightarrow> (string \<rightharpoonup> string)" where
  "entries m = (case m of None \<Rightarrow> Map.empty | Some l \<Rightarrow> map_of l)"

text \<open>
  The types of the Kubernetes API, with the fields the webhook reads or writes.
  \<open>ReqKind\<close> is \<open>Request.Kind.Kind\<close>, \<open>ReqObject\<close> is \<open>Request.Object.Raw\<close>,
  \<open>Labels\<close> is \<open>pod.Labels\<close>. A pointer field is an \<open>option\<close> (\<open>None\<close> is nil).
\<close>

record AdmissionRequest =
  ReqUID :: string
  ReqKind :: string
  ReqObject :: string

record Pod =
  Labels :: "gomap option"

text \<open>
  One element of \<open>patches\<close>: the map with the keys \<open>op\<close>, \<open>path\<close> and \<open>value\<close>
  (here \<open>val\<close>), whose value is a string or a \<open>map[string]string\<close>.
\<close>

datatype patch_value = StringValue string | MapValue gomap

record PatchOperation =
  op :: string
  path :: string
  val :: patch_value

record Status =
  Message :: string

text \<open>
  \<open>Patch\<close> holds the operations whose JSON encoding is the field's bytes;
  \<open>None\<close> is the nil slice of bytes.
\<close>

record AdmissionResponse =
  UID :: string
  Allowed :: bool
  Result :: "Status option"
  Patch :: "PatchOperation list option"
  PatchType :: "string option"

record TypeMeta =
  APIVersion :: string
  Kind :: string

record AdmissionReview =
  TypeMeta :: TypeMeta
  Request :: "AdmissionRequest option"
  Response :: "AdmissionResponse option"

text \<open>
  The package \<open>encoding/json\<close>, a parameter of the model.
  \<open>json.Unmarshal(data, &v)\<close> returns an error (\<open>None\<close> is nil) and leaves in
  \<open>v\<close> what it has decoded, also when it returns an error.
  \<open>json.Marshal(v)\<close> returns the bytes and an error; the model keeps \<open>v\<close> in
  the place of its bytes, and the error.
\<close>

record json =
  unmarshalReview :: "string \<Rightarrow> string option \<times> AdmissionReview"
  unmarshalPod :: "string \<Rightarrow> string option \<times> Pod"
  marshalPatches :: "PatchOperation list \<Rightarrow> string option"
  marshalReview :: "AdmissionReview \<Rightarrow> string option"

text \<open>A nil pointer dereference: the run-time panic of Go.\<close>

datatype panic = NilPointerDereference

text \<open>
  What a handler has written to its \<open>http.ResponseWriter\<close>: the status code and
  the review whose JSON encoding is the body (\<open>None\<close>: no byte was written). The
  headers are not modelled.
\<close>

record http_response =
  StatusCode :: nat
  Body :: "AdmissionReview option"

section \<open>The webhook\<close>

text \<open>
  \<open>getLabelsFromAPI\<close> (lines 192-195), the mocked label source: the labels, or an
  error (\<open>Inl\<close>). The mock never fails.
\<close>

definition getLabelsFromAPI :: "string + gomap" where
  "getLabelsFromAPI = Inr [(''team'', ''microservices'')]"

text \<open>
  Lines 100-106 of \<open>mutate\<close>: the loop over the keys of \<open>pod.Labels\<close> that sets
  \<open>found\<close> and breaks at the first key with the prefix. A \<open>range\<close> over a nil
  map runs no iteration.
\<close>

fun found_loop :: "string list \<Rightarrow> bool" where
  "found_loop [] = False"
| "found_loop (key # keys) =
     (if prefix ''rollouts-pod-template-hash'' key then True else found_loop keys)"

definition found :: "gomap option \<Rightarrow> bool" where
  "found podLabels =
     (case podLabels of None \<Rightarrow> found_loop [] | Some m \<Rightarrow> found_loop (map fst m))"

text \<open>
  Lines 122-143 of \<open>mutate\<close>: the construction of \<open>patches\<close>. \<open>patches_loop\<close>
  is the loop over \<open>labels\<close> (lines 131-143), which appends one operation for each
  entry; \<open>patches_init\<close> is \<open>patches\<close> before the loop (lines 122-129).
\<close>

definition patch_op :: "gomap option \<Rightarrow> string \<Rightarrow> string" where
  "patch_op podLabels key =
     (case podLabels of
        None \<Rightarrow> ''add''
      | Some m \<Rightarrow> (case map_of m key of None \<Rightarrow> ''add'' | Some _ \<Rightarrow> ''replace''))"

fun patches_loop ::
  "gomap option \<Rightarrow> gomap \<Rightarrow> PatchOperation list \<Rightarrow> PatchOperation list" where
  "patches_loop podLabels [] patches = patches"
| "patches_loop podLabels ((key, v) # labels) patches =
     patches_loop podLabels labels
       (patches @ [\<lparr>op = patch_op podLabels key,
                     path = ''/metadata/labels/'' @ escapeJSONPointer key,
                     val = StringValue v\<rparr>])"

definition patches_init :: "gomap option \<Rightarrow> PatchOperation list" where
  "patches_init podLabels =
     (case podLabels of
        None \<Rightarrow> [\<lparr>op = ''add'', path = ''/metadata/labels'', val = MapValue []\<rparr>]
      | Some _ \<Rightarrow> [])"

definition build_patches :: "gomap option \<Rightarrow> gomap \<Rightarrow> PatchOperation list" where
  "build_patches podLabels labels = patches_loop podLabels labels (patches_init podLabels)"

text \<open>The operation that the loop appends for one entry (used to state its lemmas).\<close>

definition label_patch :: "gomap option \<Rightarrow> string \<times> string \<Rightarrow> PatchOperation" where
  "label_patch podLabels e =
     \<lparr>op = patch_op podLabels (fst e),
      path = ''/metadata/labels/'' @ escapeJSONPointer (fst e),
      val = StringValue (snd e)\<rparr>"

text \<open>
  \<open>mutate\<close> (lines 83-159). The result of the call of the label source is the
  parameter \<open>getLabels\<close>; the webhook runs with \<open>getLabelsFromAPI\<close>. The
  dereference of a nil \<open>ar.Request\<close> at line 87 panics. The fields of an
  \<open>AdmissionResponse\<close> that a composite literal does not name have their zero
  value.
\<close>

definition mutate ::
  "(string + gomap) \<Rightarrow> json \<Rightarrow> AdmissionReview \<Rightarrow> panic + AdmissionResponse" where
  "mutate getLabels js ar =
     (case Request ar of
        None \<Rightarrow> Inl NilPointerDereference
      | Some req \<Rightarrow>
          if ReqKind req \<noteq> ''Pod''
          then Inr \<lparr>UID = [], Allowed = True, Result = None, Patch = None, PatchType = None\<rparr>
          else
            (case unmarshalPod js (ReqObject req) of
               (Some err, pod) \<Rightarrow>
                 Inr \<lparr>UID = [], Allowed = False,
                      Result = Some \<lparr>Message = ''Could not unmarshal Pod: '' @ err\<rparr>,
                      Patch = None, PatchType = None\<rparr>
             | (None, pod) \<Rightarrow>
                 if \<not> found (Labels pod)
                 then Inr \<lparr>UID = [], Allowed = True, Result = None, Patch = None,
                           PatchType = None\<rparr>
                 else
                   (case getLabels of
                      Inl err \<Rightarrow>
                        Inr \<lparr>UID = [], Allowed = False,
                             Result = Some \<lparr>Message = ''Error retrieving labels from API: '' @ err\<rparr>,
                             Patch = None, PatchType = None\<rparr>
                    | Inr labels \<Rightarrow>
                        (let patches = build_patches (Labels pod) labels in
                           case marshalPatches js patches of
                             Some err \<Rightarrow>
                               Inr \<lparr>UID = [], Allowed = False,
                                    Result = Some \<lparr>Message = ''Could not marshal JSON patch: '' @ err\<rparr>,
                                    Patch = None, PatchType = None\<rparr>
                           | None \<Rightarrow>
                               Inr \<lparr>UID = [], Allowed = True, Result = None,
                                    Patch = Some patches, PatchType = Some ''JSONPatch''\<rparr>))))"

text \<open>
  \<open>writeAdmissionError\<close> (lines 161-183). The error of \<open>json.Marshal\<close> is
  dropped there: when it fails, no byte is written.
\<close>

definition writeAdmissionError :: "json \<Rightarrow> nat \<Rightarrow> string \<Rightarrow> http_response" where
  "writeAdmissionError js code message =
     (let errResp = \<lparr>UID = [], Allowed = False, Result = Some \<lparr>Message = message\<rparr>,
                      Patch = None, PatchType = None\<rparr>;
          reviewResp = \<lparr>TypeMeta = \<lparr>APIVersion = ''admission.k8s.io/v1'',
                                     Kind = ''AdmissionReview''\<rparr>,
                         Request = None, Response = Some errResp\<rparr>
      in \<lparr>StatusCode = code,
          Body = (case marshalReview js reviewResp of None \<Rightarrow> Some reviewResp | Some _ \<Rightarrow> None)\<rparr>)"

text \<open>
  \<open>serveMutate\<close> (lines 45-80). \<open>body\<close> and \<open>err\<close> are what \<open>io.ReadAll\<close>
  returns. Line 61 dereferences \<open>reviewReq.Request\<close> once more. A handler that
  writes without setting a status code answers 200.
\<close>

definition serveMutate ::
  "(string + gomap) \<Rightarrow> json \<Rightarrow> string \<Rightarrow> string option \<Rightarrow> panic + http_response" where
  "serveMutate getLabels js body err =
     (if err \<noteq> None \<or> length body = 0
      then Inr (writeAdmissionError js 400 ''Empty request body'')
      else
        (case unmarshalReview js body of
           (Some e, reviewReq) \<Rightarrow>
             Inr (writeAdmissionError js 400 ''Could not unmarshal AdmissionReview'')
         | (None, reviewReq) \<Rightarrow>
             (case mutate getLabels js reviewReq of
                Inl p \<Rightarrow> Inl p
              | Inr response \<Rightarrow>
                  (case Request reviewReq of
                     None \<Rightarrow> Inl NilPointerDereference
                   | Some req \<Rightarrow>
                       (let reviewResp =
                              \<lparr>TypeMeta = \<lparr>APIVersion = ''admission.k8s.io/v1'',
                                            Kind = ''AdmissionReview''\<rparr>,
                               Request = None,
                               Response = Some (response\<lparr>UID := ReqUID req\<rparr>)\<rparr>
                        in case marshalReview js reviewResp of
                             Some e \<Rightarrow>
                               Inr (writeAdmissionError js 500
                                      ''Could not marshal AdmissionReview response'')
                           | None \<Rightarrow>
                               Inr \<lparr>StatusCode = 200, Body = Some reviewResp\<rparr>)))))"

section \<open>JSON Pointer and JSON Patch\<close>

text \<open>
  The unescaping of a reference token of a JSON Pointer (RFC 6901), against which
  \<open>escapeJSONPointer\<close> is checked; it is no code of the webhook. It works in the
  reverse order: first every \<open>~1\<close> becomes \<open>/\<close>, then every \<open>~0\<close> becomes
  \<open>~\<close>.
\<close>

definition unescapeJSONPointer :: "string \<Rightarrow> string" where
  "unescapeJSONPointer s = ReplaceAll (ReplaceAll s ''~1'' ''/'') ''~0'' ''~''"

text \<open>
  The application of a JSON Patch (RFC 6902) by the API server, against which the
  patch of the webhook is checked; it is no code of the webhook. The document is a Pod that has a
  \<open>metadata\<close> member; the model keeps its member \<open>labels\<close> (\<open>None\<close>: the member
  is absent), the one part that the paths of the webhook address. A path is split at
  each \<open>/\<close> and each token is unescaped. \<open>add\<close> sets a member of an existing
  parent, new or not; \<open>replace\<close> sets a member that exists. The result \<open>None\<close> is
  an operation that fails, or one outside this part of the document.
\<close>

fun split_slash :: "string \<Rightarrow> string list" where
  "split_slash [] = [[]]"
| "split_slash (c # s) =
     (if c = CHR ''/'' then [] # split_slash s
      else (case split_slash s of [] \<Rightarrow> [[c]] | t # ts \<Rightarrow> (c # t) # ts))"

definition parse_pointer :: "string \<Rightarrow> string list option" where
  "parse_pointer p =
     (case p of
        [] \<Rightarrow> Some []
      | c # s \<Rightarrow> if c = CHR ''/'' then Some (map unescapeJSONPointer (split_slash s)) else None)"

definition apply_operation :: "PatchOperation \<Rightarrow> gomap option \<Rightarrow> gomap option option" where
  "apply_operation p doc =
     (case parse_pointer (path p) of
        None \<Rightarrow> None
      | Some tokens \<Rightarrow>
          if tokens = [''metadata'', ''labels'']
          then (case val p of
                  StringValue v \<Rightarrow> None
                | MapValue m \<Rightarrow>
                    if op p = ''add'' then Some (Some m)
                    else if op p = ''replace'' \<and> doc \<noteq> None then Some (Some m)
                    else None)
          else if length tokens = 3 \<and> take 2 tokens = [''metadata'', ''labels'']
          then (case (doc, val p) of
                  (Some m, StringValue v) \<Rightarrow>
                    if op p = ''add'' then Some (Some (AList.update (tokens ! 2) v m))
                    else if op p = ''replace'' \<and> map_of m (tokens ! 2) \<noteq> None
                    then Some (Some (AList.update (tokens ! 2) v m))
                    else None
                | _ \<Rightarrow> None)
          else None)"

fun apply_patch :: "PatchOperation list \<Rightarrow> gomap option \<Rightarrow> gomap option option" where
  "apply_patch [] doc = Some doc"
| "apply_patch (p # ps) doc =
     (case apply_operation p doc of None \<Rightarrow> None | Some doc' \<Rightarrow> apply_patch ps doc')"

section \<open>Example requests\<close>

text \<open>
  The inputs of the examples below. \<open>example_json\<close> gives what \<open>encoding/json\<close>
  returns for the bodies and the objects of these examples, and takes any other
  input as one with a syntax error; none of its encodings fails.
  In \<open>typed_body\<close> the member \<open>kind\<close> is a string where an object is expected:
  \<open>json.Unmarshal\<close> reports the mismatch, skips the member and decodes the rest, so
  that \<open>reviewReq.Request.UID\<close> is \<open>abc\<close> when it returns its error.
\<close>

definition zero_review :: AdmissionReview where
  "zero_review = \<lparr>TypeMeta = \<lparr>APIVersion = [], Kind = []\<rparr>, Request = None, Response = None\<rparr>"

definition marked_pod :: string where
  "marked_pod = ''{\"metadata\":{\"labels\":{\"rollouts-pod-template-hash\":\"5d4f8\"}}}''"

definition plain_pod :: string where
  "plain_pod = ''{\"metadata\":{\"labels\":{\"app\":\"web\"}}}''"

definition pod_body :: string where
  "pod_body = ''{\"request\":{\"uid\":\"u1\",\"kind\":{\"kind\":\"Pod\"},\"object\":''
                @ marked_pod @ ''}}''"

definition typed_body :: string where
  "typed_body = ''{\"request\":{\"uid\":\"abc\",\"kind\":\"oops\"}}''"

definition example_json :: json where
  "example_json =
     \<lparr>unmarshalReview = (\<lambda>body.
          if body = ''{}'' then (None, zero_review)
          else if body = pod_body
          then (None, zero_review\<lparr>Request :=
                  Some \<lparr>ReqUID = ''u1'', ReqKind = ''Pod'', ReqObject = marked_pod\<rparr>\<rparr>)
          else if body = typed_body
          then (Some ''json: cannot unmarshal string into Go struct field AdmissionRequest.request.kind of type v1.GroupVersionKind'',
                zero_review\<lparr>Request := Some \<lparr>ReqUID = ''abc'', ReqKind = [], ReqObject = []\<rparr>\<rparr>)
          else (Some ''invalid character'', zero_review)),
      unmarshalPod = (\<lambda>raw.
          if raw = marked_pod
          then (None, \<lparr>Labels = Some [(''rollouts-pod-template-hash'', ''5d4f8'')]\<rparr>)
          else if raw = plain_pod then (None, \<lparr>Labels = Some [(''app'', ''web'')]\<rparr>)
          else if raw = ''[]''
          then (Some ''json: cannot unmarshal array into Go value of type v1.Pod'',
                \<lparr>Labels = None\<rparr>)
          else (Some ''invalid character'', \<lparr>Labels = None\<rparr>)),
      marshalPatches = (\<lambda>patches. None),
      marshalReview = (\<lambda>review. None)\<rparr>"

section \<open>Escaping\<close>

lemma ReplaceAll_char:
  "ReplaceAll s [a] new = concat (map (\<lambda>c. if c = a then new else [c]) s)"
  by (induction s) auto

lemma escapeJSONPointer_concat: "escapeJSONPointer s = concat (map escape_char s)"
  unfolding escapeJSONPointer_def ReplaceAll_char
  by (induction s) (simp_all add: escape_char_def)

lemma escapeJSONPointer_Nil: "escapeJSONPointer [] = []"
  by (simp add: escapeJSONPointer_concat)

lemma escapeJSONPointer_Cons: "escapeJSONPointer (c # s) = escape_char c @ escapeJSONPointer s"
  by (simp add: escapeJSONPointer_concat)

lemma slash_notin_escape: "CHR ''/'' \<notin> set (escapeJSONPointer s)"
  by (induction s) (simp_all add: escapeJSONPointer_Nil escapeJSONPointer_Cons escape_char_def)

text \<open>Undoing \<open>~1\<close> leaves the \<open>~0\<close> of the escaped tildes in place.\<close>

lemma unescape_step1:
  "ReplaceAll (escapeJSONPointer s) ''~1'' ''/'' =
     concat (map (\<lambda>c. if c = CHR ''~'' then ''~0'' else [c]) s)"
  by (induction s) (simp_all add: escapeJSONPointer_Nil escapeJSONPointer_Cons escape_char_def)

lemma unescape_step2:
  "ReplaceAll (concat (map (\<lambda>c. if c = CHR ''~'' then ''~0'' else [c]) s)) ''~0'' ''~'' = s"
  by (induction s) simp_all

lemma unescape_escape: "unescapeJSONPointer (escapeJSONPointer s) = s"
  by (simp add: unescapeJSONPointer_def unescape_step1 unescape_step2)

lemma escape_inj: "escapeJSONPointer a = escapeJSONPointer b \<Longrightarrow> a = b"
  by (metis unescape_escape)

text \<open>
  C8. \<open>escapeJSONPointer\<close> replaces every \<open>~\<close> by \<open>~0\<close> first and every \<open>/\<close> by
  \<open>~1\<close> second; the key \<open>a/b~c\<close> becomes \<open>a~1b~0c\<close>; and unescaping in the reverse
  order gives back the key, for every string.
\<close>

theorem escapeJSONPointer_roundtrip:
  "escapeJSONPointer s = ReplaceAll (ReplaceAll s ''~'' ''~0'') ''/'' ''~1''
   \<and> escapeJSONPointer ''a/b~c'' = ''a~1b~0c''
   \<and> unescapeJSONPointer (escapeJSONPointer s) = s"
  by (simp add: unescape_escape) (simp add: escapeJSONPointer_def)

section \<open>The patch\<close>

lemma split_slash_single: "CHR ''/'' \<notin> set t \<Longrightarrow> split_slash t = [t]"
  by (induction t) auto

lemma unescape_metadata: "unescapeJSONPointer ''metadata'' = ''metadata''"
  by (simp add: unescapeJSONPointer_def)

lemma unescape_labels: "unescapeJSONPointer ''labels'' = ''labels''"
  by (simp add: unescapeJSONPointer_def)

lemma parse_label_path:
  "parse_pointer (''/metadata/labels/'' @ escapeJSONPointer key) =
     Some [''metadata'', ''labels'', key]"
  by (simp add: parse_pointer_def split_slash_single slash_notin_escape unescape_escape
      unescape_metadata unescape_labels)

lemma parse_labels_path: "parse_pointer ''/metadata/labels'' = Some [''metadata'', ''labels'']"
  by (simp add: parse_pointer_def unescape_metadata unescape_labels)

lemma patch_op_entries:
  "patch_op podLabels key = (if entries podLabels key = None then ''add'' else ''replace'')"
  by (simp add: patch_op_def entries_def split: option.splits)

lemma patches_loop_append:
  "patches_loop podLabels labels patches = patches @ map (label_patch podLabels) labels"
  by (induction labels arbitrary: patches) (auto simp: label_patch_def)

lemma build_patches_eq:
  "build_patches podLabels labels = patches_init podLabels @ map (label_patch podLabels) labels"
  by (simp add: build_patches_def patches_loop_append)

lemma apply_patch_append:
  "apply_patch (ps @ qs) doc =
     (case apply_patch ps doc of None \<Rightarrow> None | Some doc' \<Rightarrow> apply_patch qs doc')"
  by (induction ps arbitrary: doc) (simp_all split: option.splits)

lemma label_patch_sel:
  "op (label_patch podLabels (k, v)) = patch_op podLabels k"
  "val (label_patch podLabels (k, v)) = StringValue v"
  "path (label_patch podLabels (k, v)) = ''/metadata/labels/'' @ escapeJSONPointer k"
  by (simp_all add: label_patch_def)

lemma parse_label_patch:
  "parse_pointer (path (label_patch podLabels (k, v))) = Some [''metadata'', ''labels'', k]"
  by (simp only: label_patch_sel parse_label_path)

lemma apply_label_patch:
  "apply_operation (label_patch podLabels (k, v)) (Some m) =
     (if entries podLabels k = None \<or> map_of m k \<noteq> None
      then Some (Some (AList.update k v m)) else None)"
  by (simp add: apply_operation_def parse_label_patch label_patch_sel(1,2) patch_op_entries)

lemma apply_label_patches:
  "\<forall>k. entries podLabels k \<noteq> None \<longrightarrow> map_of m k \<noteq> None \<Longrightarrow>
   \<exists>m'. apply_patch (map (label_patch podLabels) ds) (Some m) = Some (Some m')
        \<and> map_of m' = map_of m ++ map_of (rev ds)"
proof (induction ds arbitrary: m)
  case Nil
  then show ?case by simp
next
  case (Cons e ds)
  obtain k v where e: "e = (k, v)" by (cases e)
  let ?m = "AList.update k v m"
  have step: "apply_operation (label_patch podLabels e) (Some m) = Some (Some ?m)"
    using Cons.prems by (auto simp: e apply_label_patch)
  have "\<forall>k'. entries podLabels k' \<noteq> None \<longrightarrow> map_of ?m k' \<noteq> None"
    using Cons.prems by (simp add: update_conv')
  from Cons.IH [OF this] obtain m' where
    m': "apply_patch (map (label_patch podLabels) ds) (Some ?m) = Some (Some m')"
        "map_of m' = map_of ?m ++ map_of (rev ds)"
    by blast
  have "map_of ?m ++ map_of (rev ds) = map_of m ++ map_of (rev (e # ds))"
    by (rule ext) (simp add: e update_conv' map_add_def split: option.splits)
  with m' step show ?case by simp
qed

lemma map_of_rev_distinct: "distinct (map fst ds) \<Longrightarrow> map_of (rev ds) = map_of ds"
  by (subst map_of_inject_set) (simp_all add: rev_map [symmetric])

lemma apply_init:
  "apply_patch (patches_init None) doc = Some (Some [])"
  by (simp add: patches_init_def apply_operation_def parse_labels_path)

text \<open>
  C3. For every existing label mapping (nil or not) and every desired label set,
  applying the built operations in order to the document that holds the existing
  labels succeeds and leaves the existing mapping merged with the desired one,
  the desired values winning; applying the same operations once more to the result
  succeeds and leaves the same mapping.
\<close>

theorem patch_merges:
  assumes "wf_gomap desired"
  shows "\<exists>d1. apply_patch (build_patches existing desired) existing = Some d1
            \<and> entries d1 = entries existing ++ map_of desired
            \<and> (\<exists>d2. apply_patch (build_patches existing desired) d1 = Some d2
                    \<and> entries d2 = entries d1)"
proof (cases existing)
  case None
  have "\<forall>k. entries None k \<noteq> None \<longrightarrow> map_of ([] :: gomap) k \<noteq> None"
    by (simp add: entries_def)
  from apply_label_patches [OF this, of desired] obtain m' where
    m': "apply_patch (map (label_patch None) desired) (Some []) = Some (Some m')"
        "map_of m' = map_of desired"
    using assms by (auto simp: map_of_rev_distinct wf_gomap_def)
  have "apply_patch (build_patches None desired) doc = Some (Some m')" for doc
    by (simp add: build_patches_eq apply_patch_append apply_init m')
  then show ?thesis
    by (simp add: None entries_def m')
next
  case (Some m)
  have "\<forall>k. entries (Some m) k \<noteq> None \<longrightarrow> map_of m k \<noteq> None"
    by (simp add: entries_def)
  from apply_label_patches [OF this, of desired] obtain m1 where
    m1: "apply_patch (map (label_patch (Some m)) desired) (Some m) = Some (Some m1)"
        "map_of m1 = map_of m ++ map_of desired"
    using assms by (auto simp: map_of_rev_distinct wf_gomap_def)
  have "\<forall>k. entries (Some m) k \<noteq> None \<longrightarrow> map_of m1 k \<noteq> None"
    by (auto simp: entries_def m1 map_add_def split: option.splits)
  from apply_label_patches [OF this, of desired] obtain m2 where
    m2: "apply_patch (map (label_patch (Some m)) desired) (Some m1) = Some (Some m2)"
        "map_of m2 = map_of m1 ++ map_of desired"
    using assms by (auto simp: map_of_rev_distinct wf_gomap_def)
  have "map_of m2 = map_of m1"
    unfolding m2 m1 by (rule ext) (simp add: map_add_def split: option.splits)
  then show ?thesis
    by (simp add: Some build_patches_eq patches_init_def entries_def m1 m2)
qed


theorem patch_merges_witness:
  "wf_gomap [(''team'', ''microservices''), (''a/b~c'', ''x'')]
   \<and> (\<exists>d1. apply_patch
              (build_patches (Some [(''rollouts-pod-template-hash'', ''5d4f8''), (''team'', ''old'')])
                 [(''team'', ''microservices''), (''a/b~c'', ''x'')])
              (Some [(''rollouts-pod-template-hash'', ''5d4f8''), (''team'', ''old'')]) = Some d1
          \<and> entries d1 =
              entries (Some [(''rollouts-pod-template-hash'', ''5d4f8''), (''team'', ''old'')])
                ++ map_of [(''team'', ''microservices''), (''a/b~c'', ''x'')]
          \<and> (\<exists>d2. apply_patch
                 (build_patches (Some [(''rollouts-pod-template-hash'', ''5d4f8''), (''team'', ''old'')])
                    [(''team'', ''microservices''), (''a/b~c'', ''x'')]) d1 = Some d2
               \<and> entries d2 = entries d1))"
proof -
  have h: "wf_gomap [(''team'', ''microservices''), (''a/b~c'', ''x'')]"
    by (simp add: wf_gomap_def)
  show ?thesis
    using h patch_merges [OF h] by blast
qed

lemma label_path_neq: "''/metadata/labels/'' @ k \<noteq> ''/metadata/labels''"
  by simp

lemma label_patch_path_neq: "path (label_patch podLabels e) \<noteq> ''/metadata/labels''"
  by (simp add: label_patch_def)

lemma filter_parent_label_patches:
  "filter (\<lambda>p. path p = ''/metadata/labels'') (map (label_patch podLabels) ds) = []"
  by (induction ds) (simp_all add: label_patch_path_neq)

text \<open>
  C6. The built patch begins with the operation \<open>add /metadata/labels {}\<close> if and
  only if the label mapping of the Pod is nil; it holds that operation once when the
  mapping is nil and never when the mapping is present, empty or not.
\<close>

theorem leading_operation:
  "((\<exists>rest. build_patches existing desired =
        \<lparr>op = ''add'', path = ''/metadata/labels'', val = MapValue []\<rparr> # rest)
      \<longleftrightarrow> existing = None)
   \<and> length (filter (\<lambda>p. path p = ''/metadata/labels'') (build_patches existing desired)) =
       (if existing = None then 1 else 0)"
proof (cases existing)
  case None
  then show ?thesis
    by (simp add: build_patches_eq patches_init_def filter_parent_label_patches)
next
  case (Some m)
  have "map (label_patch (Some m)) desired \<noteq>
          \<lparr>op = ''add'', path = ''/metadata/labels'', val = MapValue []\<rparr> # rest" for rest
    by (cases desired) (auto simp: label_patch_def)
  then show ?thesis
    by (simp add: Some build_patches_eq patches_init_def filter_parent_label_patches)
qed

lemma label_patch_path_eq:
  "path (label_patch podLabels e) = ''/metadata/labels/'' @ escapeJSONPointer key \<longleftrightarrow> fst e = key"
  by (auto simp: label_patch_def dest: escape_inj)

lemma filter_key_distinct:
  "distinct (map fst ds) \<Longrightarrow> (key, v) \<in> set ds \<Longrightarrow> filter (\<lambda>e. fst e = key) ds = [(key, v)]"
proof (induction ds)
  case Nil
  then show ?case by simp
next
  case (Cons e ds)
  show ?case
  proof (cases "fst e = key")
    case True
    have "key \<notin> fst ` set ds"
      using Cons.prems True by simp
    then have "(key, v) \<notin> set ds"
      by (force simp: image_iff)
    with Cons.prems have "e = (key, v)"
      by simp
    moreover have "filter (\<lambda>e. fst e = key) ds = []"
      using \<open>key \<notin> fst ` set ds\<close> by (auto simp: filter_empty_conv)
    ultimately show ?thesis by simp
  next
    case False
    with Cons show ?thesis by auto
  qed
qed

lemma filter_label_patches:
  "filter (\<lambda>p. path p = ''/metadata/labels/'' @ escapeJSONPointer key)
     (map (label_patch podLabels) ds) =
   map (label_patch podLabels) (filter (\<lambda>e. fst e = key) ds)"
  by (induction ds) (auto simp: label_patch_def dest: escape_inj)

lemma filter_label_init:
  "filter (\<lambda>p. path p = ''/metadata/labels/'' @ k) (patches_init podLabels) = []"
  by (simp add: patches_init_def split: option.splits)

text \<open>
  C7. For each entry of the desired label set the built patch holds exactly one
  operation at the path \<open>/metadata/labels/\<close> followed by the escaped key; its op is
  \<open>replace\<close> when the key is in the existing mapping and \<open>add\<close> otherwise, and
  its value is the desired value. Every other operation is the leading one: none
  targets a key outside the desired set.
\<close>

theorem one_operation_per_label:
  assumes "wf_gomap desired"
  shows "(\<forall>(key, v) \<in> set desired.
            filter (\<lambda>p. path p = ''/metadata/labels/'' @ escapeJSONPointer key)
              (build_patches existing desired) =
            [\<lparr>op = (if entries existing key \<noteq> None then ''replace'' else ''add''),
              path = ''/metadata/labels/'' @ escapeJSONPointer key,
              val = StringValue v\<rparr>])
       \<and> (\<forall>p \<in> set (build_patches existing desired).
            (existing = None \<and> p = \<lparr>op = ''add'', path = ''/metadata/labels'', val = MapValue []\<rparr>)
            \<or> (\<exists>(key, v) \<in> set desired. path p = ''/metadata/labels/'' @ escapeJSONPointer key))
       \<and> length (build_patches existing desired) =
           length desired + (if existing = None then 1 else 0)"
proof (intro conjI)
  show "\<forall>(key, v) \<in> set desired.
            filter (\<lambda>p. path p = ''/metadata/labels/'' @ escapeJSONPointer key)
              (build_patches existing desired) =
            [\<lparr>op = (if entries existing key \<noteq> None then ''replace'' else ''add''),
              path = ''/metadata/labels/'' @ escapeJSONPointer key,
              val = StringValue v\<rparr>]"
  proof (clarify)
    fix key v assume "(key, v) \<in> set desired"
    with assms have "filter (\<lambda>e. fst e = key) desired = [(key, v)]"
      by (simp add: wf_gomap_def filter_key_distinct)
    then have one: "filter (\<lambda>p. path p = ''/metadata/labels/'' @ escapeJSONPointer key)
              (build_patches existing desired) = [label_patch existing (key, v)]"
      unfolding build_patches_eq filter_append filter_label_init filter_label_patches
      by simp
    show "filter (\<lambda>p. path p = ''/metadata/labels/'' @ escapeJSONPointer key)
              (build_patches existing desired) =
            [\<lparr>op = (if entries existing key \<noteq> None then ''replace'' else ''add''),
              path = ''/metadata/labels/'' @ escapeJSONPointer key,
              val = StringValue v\<rparr>]"
      unfolding one by (simp add: label_patch_def patch_op_entries)
  qed
next
  show "\<forall>p \<in> set (build_patches existing desired).
            (existing = None \<and> p = \<lparr>op = ''add'', path = ''/metadata/labels'', val = MapValue []\<rparr>)
            \<or> (\<exists>(key, v) \<in> set desired. path p = ''/metadata/labels/'' @ escapeJSONPointer key)"
    by (cases existing) (auto simp: build_patches_eq patches_init_def label_patch_def)
next
  show "length (build_patches existing desired) =
           length desired + (if existing = None then 1 else 0)"
    by (simp add: build_patches_eq patches_init_def split: option.splits)
qed

theorem one_operation_per_label_witness:
  "wf_gomap [(''team'', ''microservices''), (''a/b~c'', ''x'')]
   \<and> filter (\<lambda>p. path p = ''/metadata/labels/team'')
        (build_patches (Some [(''team'', ''old'')]) [(''team'', ''microservices''), (''a/b~c'', ''x'')]) =
       [\<lparr>op = ''replace'', path = ''/metadata/labels/team'', val = StringValue ''microservices''\<rparr>]
   \<and> filter (\<lambda>p. path p = ''/metadata/labels/a~1b~0c'')
        (build_patches (Some [(''team'', ''old'')]) [(''team'', ''microservices''), (''a/b~c'', ''x'')]) =
       [\<lparr>op = ''add'', path = ''/metadata/labels/a~1b~0c'', val = StringValue ''x''\<rparr>]
   \<and> length (build_patches (Some [(''team'', ''old'')])
        [(''team'', ''microservices''), (''a/b~c'', ''x'')]) = 2"
proof -
  have h: "wf_gomap [(''team'', ''microservices''), (''a/b~c'', ''x'')]"
    by (simp add: wf_gomap_def)
  have e: "escapeJSONPointer ''team'' = ''team''" "escapeJSONPointer ''a/b~c'' = ''a~1b~0c''"
    by (simp_all add: escapeJSONPointer_def)
  show ?thesis
    using h one_operation_per_label [OF h, of "Some [(''team'', ''old'')]"]
    by (simp add: e entries_def)
qed

section \<open>The order of the operations\<close>

lemma label_patch_cong:
  "entries e1 = entries e2 \<Longrightarrow> label_patch e1 = label_patch e2"
  by (rule ext) (simp add: label_patch_def patch_op_entries)

lemma patches_init_cong:
  "(e1 = None) = (e2 = None) \<Longrightarrow> patches_init e1 = patches_init e2"
  by (cases e1; cases e2) (simp_all add: patches_init_def)

lemma wf_gomap_distinct: "wf_gomap m \<Longrightarrow> distinct m"
  by (simp add: wf_gomap_def distinct_map)

lemma same_entries_short:
  assumes "distinct d2" and "set d1 = set d2" and "length d1 \<le> 1"
  shows "d1 = d2"
proof (cases d1)
  case Nil
  with assms show ?thesis by simp
next
  case (Cons x xs)
  with assms have d1: "d1 = [x]" by simp
  with assms have "set d2 = {x}" by simp
  with assms(1) have "d2 = [x]"
    by (cases d2) (auto simp: subset_singleton_iff)
  with d1 show ?thesis by simp
qed

text \<open>
  C5, as amended. Two runs on the same existing labels and the same desired label
  set visit the desired entries in orders of their own. Both emit the same leading
  part followed by the same operations, in an order that may differ; when the
  desired set has at most one entry, as the one \<open>getLabelsFromAPI\<close> returns, the
  two sequences are identical.
\<close>

theorem patches_same_operations:
  assumes "wf_gomap d1" and "wf_gomap d2" and "set d1 = set d2"
    and "(e1 = None) = (e2 = None)" and "entries e1 = entries e2"
  shows "(\<exists>r1 r2. build_patches e1 d1 = patches_init e1 @ r1
              \<and> build_patches e2 d2 = patches_init e1 @ r2
              \<and> mset r1 = mset r2)
       \<and> (length d1 \<le> 1 \<longrightarrow> build_patches e1 d1 = build_patches e2 d2)"
proof
  have "mset d1 = mset d2"
    using assms(1-3) by (simp add: wf_gomap_distinct set_eq_iff_mset_eq_distinct [symmetric])
  then have "mset (map (label_patch e1) d1) = mset (map (label_patch e1) d2)"
    by simp
  then show "\<exists>r1 r2. build_patches e1 d1 = patches_init e1 @ r1
              \<and> build_patches e2 d2 = patches_init e1 @ r2
              \<and> mset r1 = mset r2"
    using assms(4,5)
    by (auto simp: build_patches_eq label_patch_cong [of e1 e2] patches_init_cong [of e1 e2])
next
  show "length d1 \<le> 1 \<longrightarrow> build_patches e1 d1 = build_patches e2 d2"
  proof
    assume "length d1 \<le> 1"
    with assms have "d1 = d2"
      by (simp add: same_entries_short wf_gomap_distinct)
    with assms(4,5) show "build_patches e1 d1 = build_patches e2 d2"
      by (simp add: build_patches_eq label_patch_cong [of e1 e2] patches_init_cong [of e1 e2])
  qed
qed

theorem patches_same_operations_witness:
  "wf_gomap [(''team'', ''microservices'')]
   \<and> build_patches (Some [(''team'', ''old''), (''app'', ''web'')]) [(''team'', ''microservices'')] =
     build_patches (Some [(''app'', ''web''), (''team'', ''old'')]) [(''team'', ''microservices'')]"
proof -
  have h: "wf_gomap [(''team'', ''microservices'')]"
    by (simp add: wf_gomap_def)
  have e: "entries (Some [(''team'', ''old''), (''app'', ''web'')]) =
           entries (Some [(''app'', ''web''), (''team'', ''old'')])"
    by (rule ext) (simp add: entries_def)
  show ?thesis
    using h patches_same_operations [OF h h _ _ e] by simp
qed

text \<open>
  Two orders of one desired label set with two entries give two different
  sequences.
\<close>

theorem patches_order_counterexample:
  "wf_gomap [(''env'', ''prod''), (''team'', ''microservices'')]
   \<and> wf_gomap [(''team'', ''microservices''), (''env'', ''prod'')]
   \<and> map_of [(''env'', ''prod''), (''team'', ''microservices'')] =
     map_of [(''team'', ''microservices''), (''env'', ''prod'')]
   \<and> build_patches (Some [(''rollouts-pod-template-hash'', ''5d4f8'')])
       [(''env'', ''prod''), (''team'', ''microservices'')] \<noteq>
     build_patches (Some [(''rollouts-pod-template-hash'', ''5d4f8'')])
       [(''team'', ''microservices''), (''env'', ''prod'')]"
  by (auto simp: wf_gomap_def build_patches_def patches_init_def)

section \<open>The predicate\<close>

lemma found_loop_iff:
  "found_loop keys \<longleftrightarrow> (\<exists>key \<in> set keys. prefix ''rollouts-pod-template-hash'' key)"
  by (induction keys) simp_all

lemma found_iff:
  "found podLabels \<longleftrightarrow>
     (\<exists>key \<in> dom (entries podLabels). prefix ''rollouts-pod-template-hash'' key)"
  by (cases podLabels)
     (simp_all add: found_def found_loop_iff entries_def dom_map_of_conv_image_fst)

lemma found_labels_present: "found podLabels \<Longrightarrow> \<exists>m. podLabels = Some m \<and> m \<noteq> []"
  by (cases podLabels) (auto simp: found_def)

lemma mutate_not_found:
  "Request ar = Some req \<Longrightarrow> ReqKind req = ''Pod'' \<Longrightarrow>
   unmarshalPod js (ReqObject req) = (None, pod) \<Longrightarrow> \<not> found (Labels pod) \<Longrightarrow>
   mutate getLabels js ar =
     Inr \<lparr>UID = [], Allowed = True, Result = None, Patch = None, PatchType = None\<rparr>"
  by (simp add: mutate_def)

text \<open>
  C4. \<open>found\<close> is true if and only if some key of the label mapping of the Pod
  begins with \<open>rollouts-pod-template-hash\<close>; it is false for a nil and for an empty
  mapping; and a Pod for which it is false is allowed with no patch, whatever the
  label source returns.
\<close>

theorem admission_predicate:
  "(found podLabels \<longleftrightarrow>
      (\<exists>key \<in> dom (entries podLabels). prefix ''rollouts-pod-template-hash'' key))
   \<and> \<not> found None \<and> \<not> found (Some [])
   \<and> (Request ar = Some req \<and> ReqKind req = ''Pod''
        \<and> unmarshalPod js (ReqObject req) = (None, pod) \<and> \<not> found (Labels pod)
      \<longrightarrow> mutate getLabels js ar =
            Inr \<lparr>UID = [], Allowed = True, Result = None, Patch = None, PatchType = None\<rparr>)"
  using found_iff [of podLabels] mutate_not_found [of ar req js pod getLabels]
  by (simp add: found_def)

theorem admission_predicate_witness:
  "found (Some [(''app'', ''web''), (''rollouts-pod-template-hash-foo'', ''x'')])
   \<and> \<not> found (Some [(''app'', ''web'')])
   \<and> mutate (Inr [(''team'', ''microservices''), (''env'', ''prod'')]) example_json
        (zero_review\<lparr>Request := Some \<lparr>ReqUID = ''u2'', ReqKind = ''Pod'', ReqObject = plain_pod\<rparr>\<rparr>) =
      Inr \<lparr>UID = [], Allowed = True, Result = None, Patch = None, PatchType = None\<rparr>"
proof -
  let ?req = "\<lparr>ReqUID = ''u2'', ReqKind = ''Pod'', ReqObject = plain_pod\<rparr>"
  let ?pod = "\<lparr>Labels = Some [(''app'', ''web'')]\<rparr>"
  have k: "\<exists>key \<in> dom (entries (Some [(''app'', ''web''), (''rollouts-pod-template-hash-foo'', ''x'')])).
             prefix ''rollouts-pod-template-hash'' key"
    by (simp add: entries_def)
  have n: "\<not> found (Some [(''app'', ''web'')])"
    by (simp add: found_def)
  have h: "Request (zero_review\<lparr>Request := Some ?req\<rparr>) = Some ?req \<and> ReqKind ?req = ''Pod''
        \<and> unmarshalPod example_json (ReqObject ?req) = (None, ?pod) \<and> \<not> found (Labels ?pod)"
    by (simp add: example_json_def plain_pod_def marked_pod_def found_def)
  show ?thesis
    using k n h
      admission_predicate [of "Some [(''app'', ''web''), (''rollouts-pod-template-hash-foo'', ''x'')]"
        "zero_review\<lparr>Request := Some ?req\<rparr>" ?req example_json ?pod
        "Inr [(''team'', ''microservices''), (''env'', ''prod'')]"]
    by blast
qed

section \<open>The handler\<close>

lemma mutate_decision:
  "mutate getLabels js ar = Inr r \<Longrightarrow>
     (Allowed r \<and> Patch r = None \<and> PatchType r = None)
     \<or> (\<not> Allowed r \<and> Patch r = None \<and> Result r \<noteq> None)
     \<or> (Allowed r \<and> Patch r \<noteq> None \<and> PatchType r = Some ''JSONPatch'')"
  by (auto simp: mutate_def Let_def split: option.splits if_splits prod.splits sum.splits)

lemma writeAdmissionError_body:
  "Body (writeAdmissionError js code message) = Some review \<Longrightarrow>
   Response review =
     Some \<lparr>UID = [], Allowed = False, Result = Some \<lparr>Message = message\<rparr>, Patch = None,
           PatchType = None\<rparr>"
  by (auto simp: writeAdmissionError_def Let_def split: option.splits)

lemma writeAdmissionError_written:
  "marshalReview js = (\<lambda>review. None) \<Longrightarrow> Body (writeAdmissionError js code message) \<noteq> None"
  by (simp add: writeAdmissionError_def Let_def)

lemma writeAdmissionError_code: "StatusCode (writeAdmissionError js code message) = code"
  by (simp add: writeAdmissionError_def Let_def)

lemma serveMutate_decoded:
  assumes "err = None" and "body \<noteq> []" and "unmarshalReview js body = (None, ar)"
    and "Request ar = Some req" and "mutate getLabels js ar = Inr r"
  shows "serveMutate getLabels js body err =
     (let reviewResp = \<lparr>TypeMeta = \<lparr>APIVersion = ''admission.k8s.io/v1'', Kind = ''AdmissionReview''\<rparr>,
                        Request = None, Response = Some (r\<lparr>UID := ReqUID req\<rparr>)\<rparr>
      in case marshalReview js reviewResp of
           Some e \<Rightarrow> Inr (writeAdmissionError js 500 ''Could not marshal AdmissionReview response'')
         | None \<Rightarrow> Inr \<lparr>StatusCode = 200, Body = Some reviewResp\<rparr>)"
  using assms by (simp add: serveMutate_def)

lemma mutate_returns: "Request ar = Some req \<Longrightarrow> \<exists>r. mutate getLabels js ar = Inr r"
  by (simp add: mutate_def Let_def split: option.splits prod.splits sum.splits)

lemma serveMutate_cases:
  "serveMutate getLabels js body err = Inr w \<Longrightarrow> Body w = Some review \<Longrightarrow>
   Response review = Some r' \<Longrightarrow>
     (\<exists>code message. w = writeAdmissionError js code message)
     \<or> (\<exists>r. mutate getLabels js (snd (unmarshalReview js body)) = Inr r
            \<and> Allowed r' = Allowed r \<and> Patch r' = Patch r \<and> PatchType r' = PatchType r)"
  by (auto simp: serveMutate_def Let_def split: if_splits prod.splits option.splits sum.splits)

text \<open>
  C9. In every decision that \<open>mutate\<close> returns, and in every response that
  \<open>serveMutate\<close> writes: when Allowed is false there is no patch, and when there is
  a patch Allowed is true and the patch type is JSONPatch.
\<close>

theorem allowed_patch_invariant:
  "(mutate getLabels js ar = Inr r \<longrightarrow>
      (\<not> Allowed r \<longrightarrow> Patch r = None)
      \<and> (Patch r \<noteq> None \<longrightarrow> Allowed r \<and> PatchType r = Some ''JSONPatch''))
   \<and> (serveMutate getLabels js body err = Inr w \<and> Body w = Some review
        \<and> Response review = Some r'
      \<longrightarrow> (\<not> Allowed r' \<longrightarrow> Patch r' = None)
          \<and> (Patch r' \<noteq> None \<longrightarrow> Allowed r' \<and> PatchType r' = Some ''JSONPatch''))"
proof (intro conjI impI)
  assume "mutate getLabels js ar = Inr r"
  from mutate_decision [OF this]
  show "\<not> Allowed r \<Longrightarrow> Patch r = None"
    and "Patch r \<noteq> None \<Longrightarrow> Allowed r" and "Patch r \<noteq> None \<Longrightarrow> PatchType r = Some ''JSONPatch''"
    by auto
next
  assume a: "serveMutate getLabels js body err = Inr w \<and> Body w = Some review
        \<and> Response review = Some r'"
  then consider (error) code message where "w = writeAdmissionError js code message"
    | (decision) r where "mutate getLabels js (snd (unmarshalReview js body)) = Inr r"
        "Allowed r' = Allowed r \<and> Patch r' = Patch r \<and> PatchType r' = PatchType r"
    using serveMutate_cases by blast
  then have "(\<not> Allowed r' \<longrightarrow> Patch r' = None)
          \<and> (Patch r' \<noteq> None \<longrightarrow> Allowed r' \<and> PatchType r' = Some ''JSONPatch'')"
  proof cases
    case error
    with a writeAdmissionError_body [of js code message review]
    have "r' = \<lparr>UID = [], Allowed = False,
        Result = Some \<lparr>Message = message\<rparr>, Patch = None, PatchType = None\<rparr>"
      by simp
    then show ?thesis by simp
  next
    case decision
    from mutate_decision [OF decision(1)] decision(2) show ?thesis by auto
  qed
  then show "\<not> Allowed r' \<Longrightarrow> Patch r' = None"
    and "Patch r' \<noteq> None \<Longrightarrow> Allowed r'" and "Patch r' \<noteq> None \<Longrightarrow> PatchType r' = Some ''JSONPatch''"
    by auto
qed

lemma example_patched:
  "mutate getLabelsFromAPI example_json
     (zero_review\<lparr>Request := Some \<lparr>ReqUID = ''u1'', ReqKind = ''Pod'', ReqObject = marked_pod\<rparr>\<rparr>) =
   Inr \<lparr>UID = [], Allowed = True, Result = None,
        Patch = Some [\<lparr>op = ''add'', path = ''/metadata/labels/team'',
                       val = StringValue ''microservices''\<rparr>],
        PatchType = Some ''JSONPatch''\<rparr>"
  by (simp add: mutate_def example_json_def getLabelsFromAPI_def found_def build_patches_def
      patches_init_def patch_op_def escapeJSONPointer_def)

lemma example_source_fails:
  "mutate (Inl ''timeout'') example_json
     (zero_review\<lparr>Request := Some \<lparr>ReqUID = ''u1'', ReqKind = ''Pod'', ReqObject = marked_pod\<rparr>\<rparr>) =
   Inr \<lparr>UID = [], Allowed = False,
        Result = Some \<lparr>Message = ''Error retrieving labels from API: timeout''\<rparr>,
        Patch = None, PatchType = None\<rparr>"
  by (simp add: mutate_def example_json_def found_def)

theorem allowed_patch_invariant_witness:
  "mutate getLabelsFromAPI example_json
     (zero_review\<lparr>Request := Some \<lparr>ReqUID = ''u1'', ReqKind = ''Pod'', ReqObject = marked_pod\<rparr>\<rparr>) =
   Inr \<lparr>UID = [], Allowed = True, Result = None,
        Patch = Some [\<lparr>op = ''add'', path = ''/metadata/labels/team'',
                       val = StringValue ''microservices''\<rparr>],
        PatchType = Some ''JSONPatch''\<rparr>
   \<and> mutate (Inl ''timeout'') example_json
     (zero_review\<lparr>Request := Some \<lparr>ReqUID = ''u1'', ReqKind = ''Pod'', ReqObject = marked_pod\<rparr>\<rparr>) =
   Inr \<lparr>UID = [], Allowed = False,
        Result = Some \<lparr>Message = ''Error retrieving labels from API: timeout''\<rparr>,
        Patch = None, PatchType = None\<rparr>"
  using example_patched example_source_fails
    allowed_patch_invariant [of getLabelsFromAPI example_json
      "zero_review\<lparr>Request := Some \<lparr>ReqUID = ''u1'', ReqKind = ''Pod'', ReqObject = marked_pod\<rparr>\<rparr>"
      "\<lparr>UID = [], Allowed = True, Result = None,
        Patch = Some [\<lparr>op = ''add'', path = ''/metadata/labels/team'',
                       val = StringValue ''microservices''\<rparr>],
        PatchType = Some ''JSONPatch''\<rparr>"]
  by simp

lemma serveMutate_undecodable:
  "err = None \<Longrightarrow> body \<noteq> [] \<Longrightarrow> unmarshalReview js body = (Some e, reviewReq) \<Longrightarrow>
   serveMutate getLabels js body err =
     Inr (writeAdmissionError js 400 ''Could not unmarshal AdmissionReview'')"
  by (simp add: serveMutate_def)

lemma serveMutate_responds:
  assumes "err = None" and "body \<noteq> []" and "unmarshalReview js body = (None, ar)"
    and "Request ar = Some req"
  shows "\<exists>w. serveMutate getLabels js body err = Inr w"
proof -
  from mutate_returns [OF assms(4)] obtain r where "mutate getLabels js ar = Inr r"
    by blast
  from serveMutate_decoded [OF assms this] show ?thesis
    by (simp add: Let_def split: option.splits)
qed

text \<open>
  C10. A non-empty body that does not decode as an AdmissionReview is answered
  with status 400 by a denial: Allowed is false, the message is
  \<open>Could not unmarshal AdmissionReview\<close> and there is no patch. A Pod object that
  does not decode, and a label source that fails, each give a denial whose message
  ends with the text of the error. In both cases \<open>serveMutate\<close> writes a response:
  it does so for every decoded review that has a request.
\<close>

theorem errors_are_denials:
  "(err = None \<and> body \<noteq> [] \<and> unmarshalReview js body = (Some e, reviewReq) \<longrightarrow>
      (\<exists>w. serveMutate getLabels js body err = Inr w \<and> StatusCode w = 400
         \<and> (\<forall>review. Body w = Some review \<longrightarrow>
                Response review =
                  Some \<lparr>UID = [], Allowed = False,
                        Result = Some \<lparr>Message = ''Could not unmarshal AdmissionReview''\<rparr>,
                        Patch = None, PatchType = None\<rparr>)
         \<and> (marshalReview js = (\<lambda>review. None) \<longrightarrow> Body w \<noteq> None)))
   \<and> (Request ar = Some req \<and> ReqKind req = ''Pod''
        \<and> unmarshalPod js (ReqObject req) = (Some e, pod) \<longrightarrow>
      mutate getLabels js ar =
        Inr \<lparr>UID = [], Allowed = False,
             Result = Some \<lparr>Message = ''Could not unmarshal Pod: '' @ e\<rparr>,
             Patch = None, PatchType = None\<rparr>)
   \<and> (Request ar = Some req \<and> ReqKind req = ''Pod''
        \<and> unmarshalPod js (ReqObject req) = (None, pod) \<and> found (Labels pod) \<longrightarrow>
      mutate (Inl e) js ar =
        Inr \<lparr>UID = [], Allowed = False,
             Result = Some \<lparr>Message = ''Error retrieving labels from API: '' @ e\<rparr>,
             Patch = None, PatchType = None\<rparr>)
   \<and> (err = None \<and> body \<noteq> [] \<and> unmarshalReview js body = (None, ar) \<and> Request ar = Some req \<longrightarrow>
      (\<exists>w. serveMutate getLabels js body err = Inr w))"
proof (intro conjI impI)
  assume a: "err = None \<and> body \<noteq> [] \<and> unmarshalReview js body = (Some e, reviewReq)"
  let ?w = "writeAdmissionError js 400 ''Could not unmarshal AdmissionReview''"
  from a have "serveMutate getLabels js body err = Inr ?w"
    by (simp add: serveMutate_undecodable)
  moreover have "StatusCode ?w = 400"
    by (rule writeAdmissionError_code)
  moreover have "\<forall>review. Body ?w = Some review \<longrightarrow>
                Response review =
                  Some \<lparr>UID = [], Allowed = False,
                        Result = Some \<lparr>Message = ''Could not unmarshal AdmissionReview''\<rparr>,
                        Patch = None, PatchType = None\<rparr>"
    using writeAdmissionError_body by blast
  moreover have "marshalReview js = (\<lambda>review. None) \<longrightarrow> Body ?w \<noteq> None"
    using writeAdmissionError_written by blast
  ultimately show "\<exists>w. serveMutate getLabels js body err = Inr w \<and> StatusCode w = 400
         \<and> (\<forall>review. Body w = Some review \<longrightarrow>
                Response review =
                  Some \<lparr>UID = [], Allowed = False,
                        Result = Some \<lparr>Message = ''Could not unmarshal AdmissionReview''\<rparr>,
                        Patch = None, PatchType = None\<rparr>)
         \<and> (marshalReview js = (\<lambda>review. None) \<longrightarrow> Body w \<noteq> None)"
    by blast
next
  assume "Request ar = Some req \<and> ReqKind req = ''Pod''
        \<and> unmarshalPod js (ReqObject req) = (Some e, pod)"
  then show "mutate getLabels js ar =
        Inr \<lparr>UID = [], Allowed = False,
             Result = Some \<lparr>Message = ''Could not unmarshal Pod: '' @ e\<rparr>,
             Patch = None, PatchType = None\<rparr>"
    by (simp add: mutate_def)
next
  assume "Request ar = Some req \<and> ReqKind req = ''Pod''
        \<and> unmarshalPod js (ReqObject req) = (None, pod) \<and> found (Labels pod)"
  then show "mutate (Inl e) js ar =
        Inr \<lparr>UID = [], Allowed = False,
             Result = Some \<lparr>Message = ''Error retrieving labels from API: '' @ e\<rparr>,
             Patch = None, PatchType = None\<rparr>"
    by (simp add: mutate_def)
next
  assume "err = None \<and> body \<noteq> [] \<and> unmarshalReview js body = (None, ar) \<and> Request ar = Some req"
  then show "\<exists>w. serveMutate getLabels js body err = Inr w"
    using serveMutate_responds by blast
qed

theorem errors_are_denials_witness:
  "(\<exists>w review. serveMutate getLabelsFromAPI example_json ''not json'' None = Inr w
       \<and> StatusCode w = 400 \<and> Body w = Some review
       \<and> Response review =
           Some \<lparr>UID = [], Allowed = False,
                 Result = Some \<lparr>Message = ''Could not unmarshal AdmissionReview''\<rparr>,
                 Patch = None, PatchType = None\<rparr>)
   \<and> mutate getLabelsFromAPI example_json
        (zero_review\<lparr>Request := Some \<lparr>ReqUID = ''u3'', ReqKind = ''Pod'', ReqObject = ''[]''\<rparr>\<rparr>) =
      Inr \<lparr>UID = [], Allowed = False,
           Result = Some \<lparr>Message =
             ''Could not unmarshal Pod: json: cannot unmarshal array into Go value of type v1.Pod''\<rparr>,
           Patch = None, PatchType = None\<rparr>
   \<and> mutate (Inl ''timeout'') example_json
        (zero_review\<lparr>Request := Some \<lparr>ReqUID = ''u1'', ReqKind = ''Pod'', ReqObject = marked_pod\<rparr>\<rparr>) =
      Inr \<lparr>UID = [], Allowed = False,
           Result = Some \<lparr>Message = ''Error retrieving labels from API: timeout''\<rparr>,
           Patch = None, PatchType = None\<rparr>
   \<and> (\<exists>w. serveMutate (Inl ''timeout'') example_json pod_body None = Inr w)"
proof -
  let ?bad = "\<lparr>ReqUID = ''u3'', ReqKind = ''Pod'', ReqObject = ''[]''\<rparr>"
  let ?good = "\<lparr>ReqUID = ''u1'', ReqKind = ''Pod'', ReqObject = marked_pod\<rparr>"
  let ?pod = "\<lparr>Labels = Some [(''rollouts-pod-template-hash'', ''5d4f8'')]\<rparr>"
  have h1: "None = (None :: string option) \<and> ''not json'' \<noteq> []
      \<and> unmarshalReview example_json ''not json'' = (Some ''invalid character'', zero_review)"
    by (simp add: example_json_def pod_body_def typed_body_def marked_pod_def)
  have m: "marshalReview example_json = (\<lambda>review. None)"
    by (simp add: example_json_def)
  have h2: "Request (zero_review\<lparr>Request := Some ?bad\<rparr>) = Some ?bad \<and> ReqKind ?bad = ''Pod''
      \<and> unmarshalPod example_json (ReqObject ?bad) =
          (Some ''json: cannot unmarshal array into Go value of type v1.Pod'', \<lparr>Labels = None\<rparr>)"
    by (simp add: example_json_def plain_pod_def marked_pod_def)
  have h3: "Request (zero_review\<lparr>Request := Some ?good\<rparr>) = Some ?good \<and> ReqKind ?good = ''Pod''
      \<and> unmarshalPod example_json (ReqObject ?good) = (None, ?pod) \<and> found (Labels ?pod)"
    by (simp add: example_json_def found_def)
  have h4: "None = (None :: string option) \<and> pod_body \<noteq> []
      \<and> unmarshalReview example_json pod_body = (None, zero_review\<lparr>Request := Some ?good\<rparr>)
      \<and> Request (zero_review\<lparr>Request := Some ?good\<rparr>) = Some ?good"
    by (simp add: example_json_def pod_body_def)
  have p1: "\<exists>w review. serveMutate getLabelsFromAPI example_json ''not json'' None = Inr w
       \<and> StatusCode w = 400 \<and> Body w = Some review
       \<and> Response review =
           Some \<lparr>UID = [], Allowed = False,
                 Result = Some \<lparr>Message = ''Could not unmarshal AdmissionReview''\<rparr>,
                 Patch = None, PatchType = None\<rparr>"
    using h1 m errors_are_denials [of None "''not json''" example_json "''invalid character''"
        zero_review getLabelsFromAPI]
    by fastforce
  have p2: "mutate getLabelsFromAPI example_json (zero_review\<lparr>Request := Some ?bad\<rparr>) =
      Inr \<lparr>UID = [], Allowed = False,
           Result = Some \<lparr>Message =
             ''Could not unmarshal Pod: json: cannot unmarshal array into Go value of type v1.Pod''\<rparr>,
           Patch = None, PatchType = None\<rparr>"
    using h2 errors_are_denials [of _ _ example_json
        "''json: cannot unmarshal array into Go value of type v1.Pod''" _ getLabelsFromAPI
        "zero_review\<lparr>Request := Some ?bad\<rparr>" ?bad "\<lparr>Labels = None\<rparr>"]
    by simp
  have p3: "mutate (Inl ''timeout'') example_json (zero_review\<lparr>Request := Some ?good\<rparr>) =
      Inr \<lparr>UID = [], Allowed = False,
           Result = Some \<lparr>Message = ''Error retrieving labels from API: timeout''\<rparr>,
           Patch = None, PatchType = None\<rparr>"
    using h3 errors_are_denials [of _ _ example_json "''timeout''" _ _
        "zero_review\<lparr>Request := Some ?good\<rparr>" ?good ?pod]
    by simp
  have p4: "\<exists>w. serveMutate (Inl ''timeout'') example_json pod_body None = Inr w"
    using h4 errors_are_denials [of None pod_body example_json _ _ "Inl ''timeout''"
        "zero_review\<lparr>Request := Some ?good\<rparr>" ?good]
    by blast
  from p1 p2 p3 p4 show ?thesis by blast
qed

section \<open>The UID\<close>

text \<open>
  C1, as amended. When the body decodes without error into a review that has a
  request, and the response encodes, the response written has the UID of the
  request. A response written by \<open>writeAdmissionError\<close> (for an empty, unread or
  undecodable body) has the empty UID.
\<close>

theorem response_uid:
  "(err = None \<and> body \<noteq> [] \<and> unmarshalReview js body = (None, ar) \<and> Request ar = Some req
      \<and> marshalReview js = (\<lambda>review. None) \<longrightarrow>
      (\<exists>w review r. serveMutate getLabels js body err = Inr w \<and> StatusCode w = 200
         \<and> Body w = Some review \<and> Response review = Some r \<and> UID r = ReqUID req))
   \<and> (Body (writeAdmissionError js code message) = Some review' \<longrightarrow>
        map_option UID (Response review') = Some [])"
proof (intro conjI impI)
  assume a: "err = None \<and> body \<noteq> [] \<and> unmarshalReview js body = (None, ar)
      \<and> Request ar = Some req \<and> marshalReview js = (\<lambda>review. None)"
  then obtain r where r: "mutate getLabels js ar = Inr r"
    using mutate_returns by blast
  with a have "serveMutate getLabels js body err =
      Inr \<lparr>StatusCode = 200,
           Body = Some \<lparr>TypeMeta = \<lparr>APIVersion = ''admission.k8s.io/v1'',
                                    Kind = ''AdmissionReview''\<rparr>,
                        Request = None, Response = Some (r\<lparr>UID := ReqUID req\<rparr>)\<rparr>\<rparr>"
    by (simp add: serveMutate_decoded)
  then show "\<exists>w review r. serveMutate getLabels js body err = Inr w \<and> StatusCode w = 200
         \<and> Body w = Some review \<and> Response review = Some r \<and> UID r = ReqUID req"
    by simp
next
  assume "Body (writeAdmissionError js code message) = Some review'"
  from writeAdmissionError_body [OF this]
  show "map_option UID (Response review') = Some []"
    by simp
qed

theorem response_uid_witness:
  "\<exists>w review r. serveMutate getLabelsFromAPI example_json pod_body None = Inr w
     \<and> StatusCode w = 200 \<and> Body w = Some review \<and> Response review = Some r \<and> UID r = ''u1''"
proof -
  let ?good = "\<lparr>ReqUID = ''u1'', ReqKind = ''Pod'', ReqObject = marked_pod\<rparr>"
  have h: "None = (None :: string option) \<and> pod_body \<noteq> []
      \<and> unmarshalReview example_json pod_body = (None, zero_review\<lparr>Request := Some ?good\<rparr>)
      \<and> Request (zero_review\<lparr>Request := Some ?good\<rparr>) = Some ?good
      \<and> marshalReview example_json = (\<lambda>review. None)"
    by (simp add: example_json_def pod_body_def)
  show ?thesis
    using h response_uid [of None pod_body example_json "zero_review\<lparr>Request := Some ?good\<rparr>"
        ?good getLabelsFromAPI]
    by simp
qed

text \<open>
  For \<open>typed_body\<close> the decoder fails after it has stored the UID \<open>abc\<close> in the
  request, and the response written has the empty UID.
\<close>

theorem response_uid_counterexample:
  "fst (unmarshalReview example_json typed_body) \<noteq> None
   \<and> map_option ReqUID (Request (snd (unmarshalReview example_json typed_body))) = Some ''abc''
   \<and> serveMutate getLabelsFromAPI example_json typed_body None =
      Inr \<lparr>StatusCode = 400,
           Body = Some \<lparr>TypeMeta = \<lparr>APIVersion = ''admission.k8s.io/v1'',
                                    Kind = ''AdmissionReview''\<rparr>,
                        Request = None,
                        Response = Some \<lparr>UID = [], Allowed = False,
                          Result = Some \<lparr>Message = ''Could not unmarshal AdmissionReview''\<rparr>,
                          Patch = None, PatchType = None\<rparr>\<rparr>\<rparr>"
  by (simp add: serveMutate_def writeAdmissionError_def example_json_def typed_body_def
      pod_body_def marked_pod_def zero_review_def)

text \<open>
  C2. A body that decodes without error into a review with no request, such as
  \<open>{}\<close>, makes \<open>mutate\<close> dereference a nil pointer: the handler panics and
  writes no response.
\<close>

theorem missing_request_panics:
  "err = None \<and> body \<noteq> [] \<and> unmarshalReview js body = (None, ar) \<and> Request ar = None \<longrightarrow>
   serveMutate getLabels js body err = Inl NilPointerDereference"
  by (simp add: serveMutate_def mutate_def)

theorem missing_request_panics_witness:
  "unmarshalReview example_json ''{}'' = (None, zero_review)
   \<and> Request zero_review = None
   \<and> serveMutate getLabelsFromAPI example_json ''{}'' None = Inl NilPointerDereference"
proof -
  have h: "None = (None :: string option) \<and> ''{}'' \<noteq> []
      \<and> unmarshalReview example_json ''{}'' = (None, zero_review) \<and> Request zero_review = None"
    by (simp add: example_json_def zero_review_def)
  show ?thesis
    using h missing_request_panics [of None "''{}''" example_json zero_review getLabelsFromAPI]
    by simp
qed

end
